theory Spec2Isabelle
  imports Complex_Main
begin

section \<open>Solar water heater simulation (SimulationSolarHeater.py)\<close>

text \<open>
  A shallow embedding of the five classes of the module: \<open>Fluid\<close>, \<open>Panel\<close>,
  \<open>SolarHeater\<close>, \<open>Tank\<close>, \<open>Pumping\<close> and \<open>Controller\<close>.

  Conventions of the model.
  \<^item> Python numbers (ints and floats mixed by true division) are read as real numbers:
    every formula is the one of the source. Rounding is left out everywhere but in
    \<open>mixWater_double\<close>, the reading of \<open>Tank.__mixWater\<close> in double precision, which
    is the one to consult on the exact value the tank's temperature takes.
  \<^item> A method that mutates its object takes the object's state and returns the pair of
    its outcome and the state the object is left in. The outcome is \<open>Inl e\<close> when the
    exception \<open>e\<close> leaves the method and \<open>Inr r\<close> when it returns \<open>r\<close>.
  \<^item> A method that only reads returns the outcome alone.
  \<^item> Lines handed to \<open>print\<close> are part of the normal outcome where a claim is about what
    is reported.
\<close>

subsection \<open>Exceptions\<close>

text \<open>
  The exceptions that can leave the module's methods. \<open>TypeError\<close> is what a call
  with arguments that do not fit the parameters raises, and what an operator raises on
  operands it does not support; \<open>IndexError\<close> is the out-of-range exception of list
  indexing.
\<close>

datatype error =
  ValueError | ZeroDivisionError | AttributeError | NameError | TypeError | IndexError

subsection \<open>Fluid\<close>

definition SpecificHeatCapacity :: real where
  "SpecificHeatCapacity = 4.2"

definition Density :: real where
  "Density = 980"

subsection \<open>Panel\<close>

record panel =
  height :: real
  width :: real
  efficiency :: real

text \<open>\<open>Panel.__init__(height=1, width=1, efficiency=0.18)\<close>\<close>

definition Panel_init :: "real \<Rightarrow> real \<Rightarrow> real \<Rightarrow> panel" where
  "Panel_init h w e = \<lparr>height = h, width = w, efficiency = e\<rparr>"

text \<open>
  \<open>Panel.heatEnergy\<close>: \<open>(self / (mass * specificHeat)) + temprature\<close>, where the first
  parameter (named \<open>self\<close> in the source) is the energy \<open>Q\<close>. Python raises
  ZeroDivisionError when the divisor is zero.
\<close>

definition heatEnergy :: "real \<Rightarrow> real \<Rightarrow> real \<Rightarrow> real \<Rightarrow> error + real" where
  "heatEnergy Q mass specificHeat temprature =
     (if mass * specificHeat = 0 then Inl ZeroDivisionError
      else Inr ((Q / (mass * specificHeat)) + temprature))"

definition tempResult :: "panel \<Rightarrow> real \<Rightarrow> real \<Rightarrow> real \<Rightarrow> error + real" where
  "tempResult self solarEnergy mass temprature =
     (let Q = solarEnergy * height self * width self * efficiency self
      in heatEnergy Q mass SpecificHeatCapacity temprature)"

text \<open>\<open>Panel.setSpec\<close>: a field is overwritten only when its argument is not \<open>None\<close>.\<close>

definition setSpec :: "real option \<Rightarrow> real option \<Rightarrow> real option \<Rightarrow> panel \<Rightarrow> panel" where
  "setSpec h w e self =
     (let s1 = (case h of None \<Rightarrow> self | Some v \<Rightarrow> self\<lparr>height := v\<rparr>);
          s2 = (case w of None \<Rightarrow> s1 | Some v \<Rightarrow> s1\<lparr>width := v\<rparr>)
      in (case e of None \<Rightarrow> s2 | Some v \<Rightarrow> s2\<lparr>efficiency := v\<rparr>))"

subsection \<open>SolarHeater\<close>

text \<open>
  \<open>MAX_HEAT = 95\<close> and \<open>__panels = []\<close> are attributes of the class. No method ever
  assigns \<open>self.__panels\<close>; \<open>buildSolarPanels\<close> only calls \<open>append\<close> on what the
  attribute lookup returns, which is the one list object held by the class. The list is
  therefore a piece of state of the class, written \<open>cls\<close> below and threaded through
  every method that touches it. An instance carries \<open>incidentEnergy\<close> alone.
\<close>

definition MAX_HEAT :: real where
  "MAX_HEAT = 95"

record solar_heater =
  incidentEnergy :: real

text \<open>The loop \<open>for _ in range(number): self.__panels.append(Panel(h, w, e))\<close>.\<close>

fun append_panels :: "nat \<Rightarrow> panel \<Rightarrow> panel list \<Rightarrow> panel list" where
  "append_panels 0 p cls = cls"
| "append_panels (Suc n) p cls = append_panels n p (cls @ [p])"

text \<open>
  \<open>buildSolarPanels\<close>: \<open>customSpec\<close> is a tuple of any length; \<open>range(number)\<close> is
  empty for a number that is not positive.
\<close>

definition buildSolarPanels :: "int \<Rightarrow> real list \<Rightarrow> panel list \<Rightarrow> (error + unit) \<times> panel list" where
  "buildSolarPanels number customSpec cls =
     (if length customSpec \<noteq> 0 \<and> length customSpec \<noteq> 3 then (Inl ValueError, cls)
      else
        (let (h, w, e) =
               (if length customSpec = 3
                then (customSpec ! 0, customSpec ! 1, customSpec ! 2)
                else (1, 1, 0.18))
         in (Inr (), append_panels (nat number) (Panel_init h w e) cls)))"

definition SolarHeater_init :: "int \<Rightarrow> real list \<Rightarrow> panel list \<Rightarrow> (error + solar_heater) \<times> panel list" where
  "SolarHeater_init numberOfPanels customSpec cls =
     (case buildSolarPanels numberOfPanels customSpec cls of
        (Inl e, cls') \<Rightarrow> (Inl e, cls')
      | (Inr _, cls') \<Rightarrow> (Inr \<lparr>incidentEnergy = - 1\<rparr>, cls'))"

text \<open>
  \<open>changePanelAt\<close> is declared without a \<open>self\<close> parameter:
  \<^verbatim>\<open>def changePanelAt(index: int, height: int = None, width: int = None, efficiency: float = None):
    if index >= len(self.panels):
        return
    self.__panels[index].setSpec(height=height, width=width, efficiency=efficiency)\<close>
  The model is of the call \<open>heater.changePanelAt(a1, ..., ak, name1=v1, ...)\<close> on an
  instance. An argument the caller writes is \<open>None\<close>, an int or a float. Python passes
  the instance as the first positional argument, so the values that reach the four
  parameters are the instance followed by the caller's positional arguments.
\<close>

datatype pyarg = ArgNone | ArgInt int | ArgFloat real

datatype pyval = Receiver | Arg pyarg

definition changePanelAt_params :: "string list" where
  "changePanelAt_params = [''index'', ''height'', ''width'', ''efficiency'']"

text \<open>
  Binding the arguments of a call to the parameters: TypeError when there are more
  positional arguments than parameters, when a keyword names a parameter that a
  positional argument has filled already or names no parameter, and when the one
  parameter without a default, \<open>index\<close>, receives nothing. The result lists the local
  variables that received an argument; the others hold their default \<open>None\<close>.
\<close>

definition bind_arguments ::
  "pyval list \<Rightarrow> (string \<times> pyval) list \<Rightarrow> error + (string \<times> pyval) list" where
  "bind_arguments positional keywords =
     (if length changePanelAt_params < length positional then Inl TypeError
      else if list_ex (\<lambda>kv. fst kv \<in> set (take (length positional) changePanelAt_params)
                            \<or> fst kv \<notin> set changePanelAt_params) keywords
           then Inl TypeError
      else if positional = [] \<and> \<not> list_ex (\<lambda>kv. fst kv = ''index'') keywords
           then Inl TypeError
      else Inr (zip changePanelAt_params positional @ keywords))"

definition local_value :: "(string \<times> pyval) list \<Rightarrow> string \<Rightarrow> pyval" where
  "local_value locals name = (case map_of locals name of Some v \<Rightarrow> v | None \<Rightarrow> Arg ArgNone)"

definition spec_value :: "pyval \<Rightarrow> real option" where
  "spec_value v =
     (case v of
        Arg ArgNone \<Rightarrow> None
      | Arg (ArgInt i) \<Rightarrow> Some (real_of_int i)
      | Arg (ArgFloat x) \<Rightarrow> Some x
      | Receiver \<Rightarrow> None)"

text \<open>
  The names bound at the level of the module (its import, its classes and \<open>main\<close>), and
  the names that an attribute lookup on a \<open>SolarHeater\<close> instance finds among the
  attributes the module gives it: \<open>__panels\<close> is stored under its mangled name.
\<close>

definition module_names :: "string list" where
  "module_names =
     [''Error'', ''Fluid'', ''Panel'', ''SolarHeater'', ''Tank'', ''Pumping'', ''Controller'',
      ''main'']"

definition SolarHeater_attributes :: "string list" where
  "SolarHeater_attributes =
     [''MAX_HEAT'', ''_SolarHeater__panels'', ''__init__'', ''buildSolarPanels'',
      ''changePanelAt'', ''getIncidentEnergy'', ''setIncidentEnergy'', ''heatWater'',
      ''incidentEnergy'']"

text \<open>
  The body, statement by statement. The guard first evaluates \<open>self\<close>: a name that is
  no local variable is looked up in the module (and the builtins, which have no
  \<open>self\<close>); NameError when it is not there. Then the attribute \<open>panels\<close> of the
  instance: AttributeError when the instance has none. Then the comparison of \<open>index\<close>
  with the length of the list: \<open>return\<close> when it is not smaller, TypeError when
  \<open>index\<close> is no number. Last the indexing of the list of the class (an int from
  \<open>-len\<close> on, negative ones counted from the end) and the call of \<open>setSpec\<close> on that
  panel. The second component of the result is the list of the class afterwards.
\<close>

definition changePanelAt ::
  "pyarg list \<Rightarrow> (string \<times> pyarg) list \<Rightarrow> panel list \<Rightarrow> (error + unit) \<times> panel list" where
  "changePanelAt args kwargs cls =
     (case bind_arguments (Receiver # map Arg args) (map (\<lambda>kv. (fst kv, Arg (snd kv))) kwargs) of
        Inl e \<Rightarrow> (Inl e, cls)
      | Inr locals \<Rightarrow>
          if ''self'' \<notin> set (map fst locals) \<and> ''self'' \<notin> set module_names
          then (Inl NameError, cls)
          else if ''panels'' \<notin> set SolarHeater_attributes then (Inl AttributeError, cls)
          else
            (case local_value locals ''index'' of
               Arg (ArgInt i) \<Rightarrow>
                 if i \<ge> int (length cls) then (Inr (), cls)
                 else if i < - int (length cls) then (Inl IndexError, cls)
                 else
                   (let j = nat (if i < 0 then i + int (length cls) else i)
                    in (Inr (),
                        cls[j := setSpec (spec_value (local_value locals ''height''))
                                         (spec_value (local_value locals ''width''))
                                         (spec_value (local_value locals ''efficiency''))
                                         (cls ! j)]))
             | Arg (ArgFloat x) \<Rightarrow>
                 if x \<ge> real (length cls) then (Inr (), cls) else (Inl TypeError, cls)
             | Arg ArgNone \<Rightarrow> (Inl TypeError, cls)
             | Receiver \<Rightarrow> (Inl TypeError, cls)))"

text \<open>
  \<open>getIncidentEnergy\<close> prints "Incident energy on solar panel needs to be non-negative"
  and raises ValueError when the stored value equals 0.
\<close>

definition getIncidentEnergy :: "solar_heater \<Rightarrow> error + real" where
  "getIncidentEnergy self =
     (if incidentEnergy self = 0 then Inl ValueError else Inr (incidentEnergy self))"

definition setIncidentEnergy :: "real \<Rightarrow> solar_heater \<Rightarrow> solar_heater" where
  "setIncidentEnergy energy self = self\<lparr>incidentEnergy := energy\<rparr>"

text \<open>
  The loop of \<open>heatWater\<close> over the panels: each panel's outlet temperature times the
  mass per panel is appended to \<open>tempObtainedFromPanels\<close>; an exception of
  \<open>tempResult\<close> leaves the loop.
\<close>

fun collect_temps :: "panel list \<Rightarrow> real \<Rightarrow> real \<Rightarrow> real \<Rightarrow> real list \<Rightarrow> error + real list" where
  "collect_temps [] solarEnergy massPerPanel initialTemp acc = Inr acc"
| "collect_temps (p # ps) solarEnergy massPerPanel initialTemp acc =
     (case tempResult p solarEnergy massPerPanel initialTemp of
        Inl e \<Rightarrow> Inl e
      | Inr t \<Rightarrow> collect_temps ps solarEnergy massPerPanel initialTemp (acc @ [t * massPerPanel]))"

text \<open>
  \<open>heatWater\<close> reads the field \<open>incidentEnergy\<close> directly (not through
  \<open>getIncidentEnergy\<close>) and the list of the class. The three divisions are by the number
  of panels, inside \<open>heatEnergy\<close>, and by the total mass.
\<close>

definition heatWater :: "real \<Rightarrow> real \<Rightarrow> panel list \<Rightarrow> solar_heater \<Rightarrow> error + real" where
  "heatWater volume initialTemp cls self =
     (if initialTemp \<ge> MAX_HEAT then Inr MAX_HEAT
      else
        (let numberOfPanels = length cls
         in if numberOfPanels = 0 then Inl ZeroDivisionError
            else
              (let volumePerPanel = volume / real numberOfPanels;
                   massPerPanel = volumePerPanel * Density
               in (case collect_temps cls (incidentEnergy self) massPerPanel initialTemp [] of
                     Inl e \<Rightarrow> Inl e
                   | Inr tempObtainedFromPanels \<Rightarrow>
                       (let total_mass = volume * Density
                        in if total_mass = 0 then Inl ZeroDivisionError
                           else Inr (sum_list tempObtainedFromPanels / total_mass))))))"

subsection \<open>Tank\<close>

record tank =
  capacity :: real
  waterVol :: real
  waterTemp :: real

text \<open>\<open>Tank.__init__(capacity=600, waterVol=200, waterTemp=30)\<close>\<close>

definition Tank_init :: "real \<Rightarrow> real \<Rightarrow> real \<Rightarrow> tank" where
  "Tank_init c v t = \<lparr>capacity = c, waterVol = v, waterTemp = t\<rparr>"

text \<open>
  \<open>__mixWater\<close>: the new temperature is computed from the old volume, then the volume
  grows. The division raises before either field is assigned. This is the method in
  exact arithmetic, which the claims about volumes, outcomes and the order of the steps
  are stated on: on whole litres the volume it computes is the one of the code. The
  temperature of the code is this one rounded, see \<open>mixWater_double\<close> below.
\<close>

definition mixWater :: "real \<Rightarrow> real \<Rightarrow> tank \<Rightarrow> (error + unit) \<times> tank" where
  "mixWater volume temprature self =
     (if volume + waterVol self = 0 then (Inl ZeroDivisionError, self)
      else (Inr (),
            self\<lparr>waterTemp :=
                    ((volume * temprature) + (waterTemp self * waterVol self)) / (volume + waterVol self),
                  waterVol := waterVol self + volume\<rparr>))"

text \<open>
  \<open>addWater\<close>: the capacity test only prints; the mix follows in both cases. The normal
  outcome is the list of lines printed.
\<close>

definition addWater :: "real \<Rightarrow> real \<Rightarrow> tank \<Rightarrow> (error + string list) \<times> tank" where
  "addWater volume temprature self =
     (let out = (if volume > capacity self - waterVol self
                 then [''Cannot add more water than the overall tank capacity'']
                 else [])
      in (case mixWater volume temprature self of
            (Inl e, self') \<Rightarrow> (Inl e, self')
          | (Inr _, self') \<Rightarrow> (Inr out, self')))"

text \<open>
  \<open>releaseWaterVolume\<close>:
  \<^verbatim>\<open>if volume > self.waterVol:
    print("Sepcify volume not more than current volume of water\nCurrent Volume of Water:", self.waterCap,
          " Kg/m3")
    return
self.waterVol -= volume\<close>
  A tank has the attributes \<open>capacity\<close>, \<open>waterVol\<close> and \<open>waterTemp\<close> and no
  \<open>waterCap\<close>: evaluating the arguments of \<open>print\<close> raises AttributeError, so nothing
  is printed and the \<open>return\<close> is not reached. The tank is not assigned to on that path.
\<close>

definition releaseWaterVolume :: "real \<Rightarrow> tank \<Rightarrow> (error + unit) \<times> tank" where
  "releaseWaterVolume volume self =
     (if volume > waterVol self then (Inl AttributeError, self)
      else (Inr (), self\<lparr>waterVol := waterVol self - volume\<rparr>))"

text \<open>
  The same method in double precision. A Python float is an IEEE 754 binary64 number and
  each arithmetic operation returns the double nearest to the exact result, a tie going
  to the double whose last bit is even. \<open>fl\<close> is that rounding: the magnitude is written
  \<open>m * 2 ^ e\<close> with \<open>2 ^ 52 \<le> m < 2 ^ 53\<close>, or with \<open>e = -1074\<close> and a smaller \<open>m\<close> for
  the subnormal numbers, and \<open>m\<close> is rounded to an integer. \<open>normalise\<close> finds \<open>m\<close>
  and \<open>e\<close> by halving or doubling, at most as often as its first argument says; 1100
  steps are enough below \<open>2 ^ 1024\<close> (lemma \<open>normalise_enough_fuel\<close>). Results beyond
  the largest double, which Python turns into \<open>inf\<close>, are not modelled. Python's ints
  are exact; below \<open>2 ^ 53\<close> they are doubles, and the operations on them agree with the
  rounded ones.
\<close>

fun normalise :: "nat \<Rightarrow> real \<Rightarrow> int \<Rightarrow> real \<times> int" where
  "normalise 0 m e = (m, e)"
| "normalise (Suc k) m e =
     (if m \<ge> 2 ^ 53 then normalise k (m / 2) (e + 1)
      else if m < 2 ^ 52 \<and> e > - 1074 then normalise k (m * 2) (e - 1)
      else (m, e))"

definition round_half_even :: "real \<Rightarrow> int" where
  "round_half_even m =
     (let f = \<lfloor>m\<rfloor>; d = m - real_of_int f
      in if d < 1 / 2 then f
         else if d > 1 / 2 then f + 1
         else if even f then f else f + 1)"

definition two_pow :: "int \<Rightarrow> real" where
  "two_pow e = (if e \<ge> 0 then 2 ^ nat e else 1 / 2 ^ nat (- e))"

definition fl :: "real \<Rightarrow> real" where
  "fl x =
     (if x = 0 then 0
      else (case normalise 1100 \<bar>x\<bar> 0 of
              (m, e) \<Rightarrow> sgn x * real_of_int (round_half_even m) * two_pow e))"

text \<open>
  \<open>__mixWater\<close> with every operation rounded, in the order of the source: the two
  products, their sum, the sum of the volumes, the quotient; then the new volume.
\<close>

definition mixWater_double :: "real \<Rightarrow> real \<Rightarrow> tank \<Rightarrow> (error + unit) \<times> tank" where
  "mixWater_double volume temprature self =
     (if fl (volume + waterVol self) = 0 then (Inl ZeroDivisionError, self)
      else (Inr (),
            self\<lparr>waterTemp :=
                    fl (fl (fl (volume * temprature) + fl (waterTemp self * waterVol self))
                        / fl (volume + waterVol self)),
                  waterVol := fl (waterVol self + volume)\<rparr>))"

subsection \<open>Pumping and Controller\<close>

text \<open>
  A pump stores its rate and references to a heater and a tank. The controller passes
  its own heater and tank to the pump, so \<open>pump.tank\<close> and \<open>controller.tank\<close> are one
  object (likewise the heater): the model keeps each object once, in the controller, and
  the pump's methods act on the controller's state.
\<close>

record pumping =
  pumpingRate :: real

record controller =
  heater :: solar_heater
  tank :: tank
  pump :: pumping
  targetTemp :: real

text \<open>\<open>Pumping.__init__(solar_heater, tank, pumpStatus=False, pumpingRate=1)\<close>\<close>

definition Pumping_init :: "real \<Rightarrow> pumping" where
  "Pumping_init rate = \<lparr>pumpingRate = rate\<rparr>"

definition setPumpingRateLitersPerSec :: "real \<Rightarrow> pumping \<Rightarrow> pumping" where
  "setPumpingRateLitersPerSec rate self = self\<lparr>pumpingRate := rate\<rparr>"

definition feedWaterToSolarHeater :: "panel list \<Rightarrow> controller \<Rightarrow> error + real" where
  "feedWaterToSolarHeater cls c =
     heatWater (pumpingRate (pump c)) (waterTemp (tank c)) cls (heater c)"

definition drawWaterFromTank :: "controller \<Rightarrow> (error + unit) \<times> controller" where
  "drawWaterFromTank c =
     (case releaseWaterVolume (pumpingRate (pump c)) (tank c) of
        (r, t') \<Rightarrow> (r, c\<lparr>tank := t'\<rparr>))"

definition feedWaterToTank :: "real \<Rightarrow> controller \<Rightarrow> (error + unit) \<times> controller" where
  "feedWaterToTank waterTemperature c =
     (case addWater (pumpingRate (pump c)) waterTemperature (tank c) of
        (Inl e, t') \<Rightarrow> (Inl e, c\<lparr>tank := t'\<rparr>)
      | (Inr _, t') \<Rightarrow> (Inr (), c\<lparr>tank := t'\<rparr>))"

text \<open>
  \<open>Controller.__init__\<close> through \<open>componentFactory\<close>: a heater with one default panel
  and incident energy 1224, a tank of capacity 500 holding 60 litres at 15 degrees, a
  pump of rate 1, and the target temperature \<open>MAX_HEAT\<close>.
\<close>

definition Controller_init :: "panel list \<Rightarrow> (error + controller) \<times> panel list" where
  "Controller_init cls =
     (case SolarHeater_init 1 [] cls of
        (Inl e, cls') \<Rightarrow> (Inl e, cls')
      | (Inr h, cls') \<Rightarrow>
          (Inr \<lparr>heater = setIncidentEnergy 1224 h,
                tank = Tank_init 500 60 15,
                pump = setPumpingRateLitersPerSec 1 (Pumping_init 1),
                targetTemp = MAX_HEAT\<rparr>, cls'))"

text \<open>\<open>__performOneCycle\<close>: draw, heat, feed back, in this order.\<close>

definition performOneCycle :: "panel list \<Rightarrow> controller \<Rightarrow> (error + unit) \<times> controller" where
  "performOneCycle cls c =
     (case drawWaterFromTank c of
        (Inl e, c1) \<Rightarrow> (Inl e, c1)
      | (Inr _, c1) \<Rightarrow>
          (case feedWaterToSolarHeater cls c1 of
             Inl e \<Rightarrow> (Inl e, c1)
           | Inr newWaterTemp \<Rightarrow> feedWaterToTank newWaterTemp c1))"

text \<open>
  The loop of \<open>__simulateSystemForSeconds\<close>:
  \<^verbatim>\<open>timeTaken = 0
for timeTaken in range(time):
    self.__performOneCycle()
    if (self.tank.waterTemp >= self.targetTemp):
        break
return timeTaken\<close>
  \<open>cycles k i timeTaken\<close> has \<open>k\<close> iterations left, \<open>i\<close> is the next value of the
  range and \<open>timeTaken\<close> the current value of the loop variable.
\<close>

fun cycles :: "nat \<Rightarrow> int \<Rightarrow> int \<Rightarrow> panel list \<Rightarrow> controller \<Rightarrow> (error + int) \<times> controller" where
  "cycles 0 i timeTaken cls c = (Inr timeTaken, c)"
| "cycles (Suc k) i timeTaken cls c =
     (case performOneCycle cls c of
        (Inl e, c') \<Rightarrow> (Inl e, c')
      | (Inr _, c') \<Rightarrow>
          (if waterTemp (tank c') \<ge> targetTemp c' then (Inr i, c')
           else cycles k (i + 1) i cls c'))"

definition simulateSystemForSeconds_private ::
  "int \<Rightarrow> panel list \<Rightarrow> controller \<Rightarrow> (error + int) \<times> controller" where
  "simulateSystemForSeconds_private time cls c = cycles (nat time) 0 0 cls c"

text \<open>
  The two entry points print a time and the tank's temperature; the normal outcome of the
  model is the pair of the two values handed to \<open>print\<close>.
\<close>

definition simulateSystemForSeconds ::
  "int \<Rightarrow> panel list \<Rightarrow> controller \<Rightarrow> (error + int \<times> real) \<times> controller" where
  "simulateSystemForSeconds second cls c =
     (case simulateSystemForSeconds_private second cls c of
        (Inl e, c') \<Rightarrow> (Inl e, c')
      | (Inr timeTaken, c') \<Rightarrow> (Inr (timeTaken + 1, waterTemp (tank c')), c'))"

definition simulateSystemForHours ::
  "int \<Rightarrow> panel list \<Rightarrow> controller \<Rightarrow> (error + int \<times> real) \<times> controller" where
  "simulateSystemForHours hours cls c =
     (case simulateSystemForSeconds_private (hours * 3600) cls c of
        (Inl e, c') \<Rightarrow> (Inl e, c')
      | (Inr timeTaken, c') \<Rightarrow>
          (let hoursTaken = real_of_int timeTaken / 3600
           in (Inr (hours, waterTemp (tank c')), c')))"

section \<open>Properties\<close>

subsection \<open>Mixing\<close>

lemma weighted_mean_lower:
  fixes v1 v2 t1 t2 :: real
  assumes "0 < v1" "0 < v2"
  shows "min t1 t2 \<le> (v1 * t1 + t2 * v2) / (v1 + v2)"
proof -
  have a: "v1 * min t1 t2 \<le> v1 * t1"
    using assms by (simp add: mult_left_mono)
  have b: "v2 * min t1 t2 \<le> t2 * v2"
    using assms by (simp add: mult.commute mult_left_mono)
  have "min t1 t2 * (v1 + v2) \<le> v1 * t1 + t2 * v2"
    using a b by (simp add: algebra_simps)
  then show ?thesis
    using assms by (simp add: pos_le_divide_eq)
qed

lemma weighted_mean_upper:
  fixes v1 v2 t1 t2 :: real
  assumes "0 < v1" "0 < v2"
  shows "(v1 * t1 + t2 * v2) / (v1 + v2) \<le> max t1 t2"
proof -
  have a: "v1 * t1 \<le> v1 * max t1 t2"
    using assms by (simp add: mult_left_mono)
  have b: "t2 * v2 \<le> v2 * max t1 t2"
    using assms by (simp add: mult.commute mult_left_mono)
  have "v1 * t1 + t2 * v2 \<le> max t1 t2 * (v1 + v2)"
    using a b by (simp add: algebra_simps)
  then show ?thesis
    using assms by (simp add: pos_divide_le_eq)
qed

lemma two_pow_step:
  "e \<le> 0 \<Longrightarrow> 2 * two_pow (e - 1) = two_pow e"
proof -
  assume "e \<le> 0"
  then have "nat (- (e - 1)) = Suc (nat (- e))"
    by simp
  then show ?thesis
    using \<open>e \<le> 0\<close> by (simp add: two_pow_def)
qed

lemma two_pow_up:
  "0 \<le> e \<Longrightarrow> two_pow (e + 1) = 2 * two_pow e"
  by (simp add: two_pow_def nat_add_distrib)

lemma normalise_fixed:
  "2 ^ 52 \<le> m \<Longrightarrow> m < 2 ^ 53 \<Longrightarrow> normalise k m e = (m, e)"
  by (cases k) simp_all

lemma normalise_up:
  assumes "2 ^ 52 \<le> m" and "m < 2 ^ 53 * 2 ^ k" and "0 \<le> e"
    and "normalise k m e = (m', e')"
  shows "2 ^ 52 \<le> m' \<and> m' < 2 ^ 53 \<and> m' * two_pow e' = m * two_pow e"
  using assms
proof (induction k arbitrary: m e)
  case 0
  then show ?case by simp
next
  case (Suc k)
  show ?case
  proof (cases "m \<ge> 2 ^ 53")
    case True
    with Suc.prems have r: "normalise k (m / 2) (e + 1) = (m', e')"
      by simp
    have "2 ^ 52 \<le> m / 2" and "m / 2 < 2 ^ 53 * 2 ^ k"
      using True Suc.prems(2) by simp_all
    then have "2 ^ 52 \<le> m' \<and> m' < 2 ^ 53 \<and> m' * two_pow e' = m / 2 * two_pow (e + 1)"
      using Suc.prems(3) r by (intro Suc.IH) simp_all
    then show ?thesis
      using Suc.prems(3) by (simp add: two_pow_up)
  next
    case False
    with Suc.prems show ?thesis by simp
  qed
qed

lemma normalise_down:
  assumes "0 < m" and "m < 2 ^ 52" and "e \<le> 0" and "- 1074 \<le> e"
    and "nat (e + 1074) \<le> k" and "normalise k m e = (m', e')"
  shows "m' < 2 ^ 53 \<and> (2 ^ 52 \<le> m' \<or> e' = - 1074) \<and> m' * two_pow e' = m * two_pow e"
  using assms
proof (induction k arbitrary: m e)
  case 0
  then show ?case by simp
next
  case (Suc k)
  show ?case
  proof (cases "e > - 1074")
    case True
    with Suc.prems have r: "normalise k (m * 2) (e - 1) = (m', e')"
      by simp
    have step: "m * 2 * two_pow (e - 1) = m * two_pow e"
      using two_pow_step [OF Suc.prems(3)] by (simp add: mult.assoc)
    show ?thesis
    proof (cases "m * 2 < 2 ^ 52")
      case small: True
      have "m' < 2 ^ 53 \<and> (2 ^ 52 \<le> m' \<or> e' = - 1074)
            \<and> m' * two_pow e' = m * 2 * two_pow (e - 1)"
        using Suc.prems(1,3,5) True small r by (intro Suc.IH) simp_all
      then show ?thesis
        using step by simp
    next
      case False
      then have lo: "2 ^ 52 \<le> m * 2"
        by simp
      have hi: "m * 2 < 2 ^ 53"
        using Suc.prems(2) by simp
      have "normalise k (m * 2) (e - 1) = (m * 2, e - 1)"
        using lo hi by (rule normalise_fixed)
      with r have "m' = m * 2" and "e' = e - 1"
        by simp_all
      then show ?thesis
        using lo hi step by simp
    qed
  next
    case False
    with Suc.prems show ?thesis by simp
  qed
qed

lemma normalise_enough_fuel:
  assumes "0 < m" and "m < 2 ^ 1024" and "normalise 1100 m 0 = (m', e')"
  shows "m' < 2 ^ 53 \<and> (2 ^ 52 \<le> m' \<or> e' = - 1074) \<and> m' * two_pow e' = m"
proof (cases "m < 2 ^ 52")
  case True
  have "m' < 2 ^ 53 \<and> (2 ^ 52 \<le> m' \<or> e' = - 1074) \<and> m' * two_pow e' = m * two_pow 0"
    using assms(1) True assms(3) by (intro normalise_down [of m 0 1100]) simp_all
  then show ?thesis
    by (simp add: two_pow_def)
next
  case False
  have "(2::real) ^ 1024 \<le> 2 ^ 53 * 2 ^ 1100"
    by (simp add: power_add [symmetric])
  then have "m < 2 ^ 53 * 2 ^ 1100"
    using assms(2) by simp
  then have "2 ^ 52 \<le> m' \<and> m' < 2 ^ 53 \<and> m' * two_pow e' = m * two_pow 0"
    using False assms(3) by (intro normalise_up [of m 1100 0]) simp_all
  then show ?thesis
    by (simp add: two_pow_def)
qed

lemma normalise_int:
  assumes "0 < i" and "real_of_int i < 2 ^ 53" and "e \<le> 0"
    and "normalise k (real_of_int i) e = (m', e')"
  shows "(\<exists>j. m' = real_of_int j) \<and> m' * two_pow e' = real_of_int i * two_pow e"
  using assms
proof (induction k arbitrary: i e)
  case 0
  then show ?case by auto
next
  case (Suc k)
  show ?case
  proof (cases "real_of_int i < 2 ^ 52 \<and> e > - 1074")
    case True
    with Suc.prems have "normalise k (real_of_int i * 2) (e - 1) = (m', e')"
      by simp
    then have r: "normalise k (real_of_int (2 * i)) (e - 1) = (m', e')"
      by (simp add: mult.commute)
    have "(\<exists>j. m' = real_of_int j) \<and> m' * two_pow e' = real_of_int (2 * i) * two_pow (e - 1)"
      using Suc.prems(1,3) True r by (intro Suc.IH) simp_all
    then show ?thesis
      using two_pow_step [OF Suc.prems(3)] by (simp add: mult.assoc)
  next
    case False
    with Suc.prems show ?thesis by auto
  qed
qed

lemma round_half_even_int:
  "round_half_even (real_of_int j) = j"
  by (simp add: round_half_even_def)

lemma fl_pos_int:
  assumes "0 < i" and "real_of_int i < 2 ^ 53"
  shows "fl (real_of_int i) = real_of_int i"
proof -
  obtain m' e' where n: "normalise 1100 (real_of_int i) 0 = (m', e')"
    by (cases "normalise 1100 (real_of_int i) 0")
  have "(\<exists>j. m' = real_of_int j) \<and> m' * two_pow e' = real_of_int i * two_pow 0"
    using assms n by (intro normalise_int) simp_all
  then obtain j where j: "m' = real_of_int j" and v: "m' * two_pow e' = real_of_int i"
    by (auto simp add: two_pow_def)
  have "fl (real_of_int i) = real_of_int (round_half_even m') * two_pow e'"
    using assms(1) n by (simp add: fl_def)
  then show ?thesis
    using j v by (simp add: round_half_even_int)
qed

lemma fl_pos_Ints:
  assumes "x \<in> \<int>" and "0 < x" and "x < 2 ^ 53"
  shows "fl x = x"
proof -
  from assms(1) obtain i where "x = real_of_int i"
    by (auto elim: Ints_cases)
  then show ?thesis
    using assms(2,3) fl_pos_int [of i] by simp
qed

text \<open>
  Claim C2, as the code has it. For a tank holding a whole number of litres \<open>v2 > 0\<close>
  at temperature \<open>t2\<close>, mixing in a whole number of litres \<open>v1 > 0\<close> at temperature
  \<open>t1\<close> (the sum of the volumes below \<open>2 ^ 53\<close>) returns normally, sets the temperature
  to \<open>(v1 * t1 + t2 * v2) / (v1 + v2)\<close> as double arithmetic evaluates it (both products,
  their sum and the quotient each rounded to the nearest double), adds exactly \<open>v1\<close> to
  the stored volume and leaves the capacity as it was. The exact value of the formula
  lies between the smaller and the larger of \<open>t1\<close> and \<open>t2\<close>; the rounded one is not
  promised to.
\<close>

theorem mixWater_double_int_volumes:
  assumes "v1 \<in> \<int>" and "waterVol self \<in> \<int>" and "0 < v1" and "0 < waterVol self"
    and "v1 + waterVol self < 2 ^ 53"
  shows "fst (mixWater_double v1 t1 self) = Inr ()
       \<and> waterTemp (snd (mixWater_double v1 t1 self))
           = fl (fl (fl (v1 * t1) + fl (waterTemp self * waterVol self)) / (v1 + waterVol self))
       \<and> waterVol (snd (mixWater_double v1 t1 self)) = waterVol self + v1
       \<and> capacity (snd (mixWater_double v1 t1 self)) = capacity self
       \<and> min t1 (waterTemp self) \<le> (v1 * t1 + waterTemp self * waterVol self) / (v1 + waterVol self)
       \<and> (v1 * t1 + waterTemp self * waterVol self) / (v1 + waterVol self) \<le> max t1 (waterTemp self)"
proof -
  have s: "v1 + waterVol self \<in> \<int>"
    using assms(1,2) by simp
  have pos: "0 < v1 + waterVol self"
    using assms(3,4) by simp
  have d: "fl (v1 + waterVol self) = v1 + waterVol self"
    using s pos assms(5) by (rule fl_pos_Ints)
  have d': "fl (waterVol self + v1) = waterVol self + v1"
    using d by (simp add: add.commute)
  have nz: "fl (v1 + waterVol self) \<noteq> 0"
    using d pos by simp
  have lo: "min t1 (waterTemp self)
              \<le> (v1 * t1 + waterTemp self * waterVol self) / (v1 + waterVol self)"
    using assms(3,4) by (rule weighted_mean_lower)
  have hi: "(v1 * t1 + waterTemp self * waterVol self) / (v1 + waterVol self)
              \<le> max t1 (waterTemp self)"
    using assms(3,4) by (rule weighted_mean_upper)
  have run: "mixWater_double v1 t1 self
             = (Inr (),
                self\<lparr>waterTemp :=
                        fl (fl (fl (v1 * t1) + fl (waterTemp self * waterVol self))
                            / (v1 + waterVol self)),
                      waterVol := waterVol self + v1\<rparr>)"
    using nz d d' by (simp add: mixWater_double_def)
  show ?thesis
    using lo hi by (simp add: run)
qed

lemma normalise_numeral:
  "normalise (numeral n) m e =
     (if m \<ge> 2 ^ 53 then normalise (pred_numeral n) (m / 2) (e + 1)
      else if m < 2 ^ 52 \<and> e > - 1074 then normalise (pred_numeral n) (m * 2) (e - 1)
      else (m, e))"
  by (simp add: numeral_eq_Suc)

lemma fl_quotient_905_60:
  "fl (905 / 60) = 8491161797438123 / 562949953421312"
  by (simp add: fl_def normalise_numeral round_half_even_def two_pow_def)

theorem mixWater_double_int_volumes_witness:
  "(1::real) \<in> \<int> \<and> waterVol (Tank_init 500 59 15) \<in> \<int>
   \<and> fst (mixWater_double 1 20 (Tank_init 500 59 15)) = Inr ()
   \<and> waterTemp (snd (mixWater_double 1 20 (Tank_init 500 59 15)))
       = 8491161797438123 / 562949953421312
   \<and> waterVol (snd (mixWater_double 1 20 (Tank_init 500 59 15))) = 60"
proof -
  have i: "waterVol (Tank_init 500 59 15) \<in> \<int>"
    by (simp add: Tank_init_def)
  have p1: "fl 20 = 20"
    using fl_pos_Ints [of 20] by simp
  have p2: "fl 885 = 885"
    using fl_pos_Ints [of 885] by simp
  have p3: "fl 905 = 905"
    using fl_pos_Ints [of 905] by simp
  have "fst (mixWater_double 1 20 (Tank_init 500 59 15)) = Inr ()
        \<and> waterTemp (snd (mixWater_double 1 20 (Tank_init 500 59 15)))
            = fl (fl (fl (1 * 20) + fl (waterTemp (Tank_init 500 59 15) * waterVol (Tank_init 500 59 15)))
                  / (1 + waterVol (Tank_init 500 59 15)))
        \<and> waterVol (snd (mixWater_double 1 20 (Tank_init 500 59 15)))
            = waterVol (Tank_init 500 59 15) + 1"
    using mixWater_double_int_volumes [of 1 "Tank_init 500 59 15" 20] i
    by (simp add: Tank_init_def)
  then show ?thesis
    using i p1 p2 p3 fl_quotient_905_60 by (simp add: Tank_init_def)
qed

lemma fl_product_62:
  "fl ((16 - 3 / 2 ^ 49) * 62) = 992 - 3 / 2 ^ 43"
  by (simp add: fl_def normalise_numeral round_half_even_def two_pow_def)

lemma fl_sum_144:
  "fl (144 + (992 - 3 / 2 ^ 43)) = 1136 - 2 / 2 ^ 42"
  by (simp add: fl_def normalise_numeral round_half_even_def two_pow_def)

lemma fl_quotient_71:
  "fl ((1136 - 2 / 2 ^ 42) / 71) = 16 - 4 / 2 ^ 49"
  by (simp add: fl_def normalise_numeral round_half_even_def two_pow_def)

text \<open>
  Why whole litres: with the volume 0.2 in the tank and 0.1 coming in (the doubles
  nearest to these), the new volume is the double printed as 0.30000000000000004, not
  the sum of the two.
\<close>

lemma mixWater_double_fractional_volumes:
  "waterVol (snd (mixWater_double (3602879701896397 / 2 ^ 55) 15
                    \<lparr>capacity = 500, waterVol = 3602879701896397 / 2 ^ 54, waterTemp = 15\<rparr>))
     = 1351079888211149 / 2 ^ 52
   \<and> 1351079888211149 / 2 ^ 52
     \<noteq> (3602879701896397 / 2 ^ 54 + 3602879701896397 / 2 ^ 55 :: real)"
proof -
  have a: "fl (3602879701896397 / 2 ^ 55 + 3602879701896397 / 2 ^ 54) = 1351079888211149 / 2 ^ 52"
    by (simp add: fl_def normalise_numeral round_half_even_def two_pow_def)
  have b: "fl (3602879701896397 / 2 ^ 54 + 3602879701896397 / 2 ^ 55) = 1351079888211149 / 2 ^ 52"
    by (simp add: fl_def normalise_numeral round_half_even_def two_pow_def)
  have "waterVol (snd (mixWater_double (3602879701896397 / 2 ^ 55) 15
                    \<lparr>capacity = 500, waterVol = 3602879701896397 / 2 ^ 54, waterTemp = 15\<rparr>))
        = 1351079888211149 / 2 ^ 52"
    unfolding mixWater_double_def tank.simps a b by simp
  then show ?thesis
    by simp
qed

text \<open>
  Claim C2 as stated fails. A tank holds 62 litres at \<open>16 - 3 / 2 ^ 49\<close> degrees (the
  double that Python prints as 15.999999999999995) and receives 9 litres at 16 degrees.
  The product \<open>62 * t2\<close> is rounded down to \<open>992 - 3 / 2 ^ 43\<close>, the sum with 144 is a
  tie and goes to \<open>1136 - 2 / 2 ^ 42\<close>, and the quotient by 71 is rounded to
  \<open>16 - 4 / 2 ^ 49\<close> (printed as 15.999999999999993): the new temperature is below both
  temperatures that were mixed, and it is not the value of the formula.
\<close>

theorem mixWater_double_counterexample:
  "fst (mixWater_double 9 16 \<lparr>capacity = 500, waterVol = 62, waterTemp = 16 - 3 / 2 ^ 49\<rparr>) = Inr ()
   \<and> waterTemp (snd (mixWater_double 9 16
                        \<lparr>capacity = 500, waterVol = 62, waterTemp = 16 - 3 / 2 ^ 49\<rparr>))
       = 16 - 4 / 2 ^ 49
   \<and> waterTemp (snd (mixWater_double 9 16
                        \<lparr>capacity = 500, waterVol = 62, waterTemp = 16 - 3 / 2 ^ 49\<rparr>))
       < min 16 (16 - 3 / 2 ^ 49)
   \<and> waterTemp (snd (mixWater_double 9 16
                        \<lparr>capacity = 500, waterVol = 62, waterTemp = 16 - 3 / 2 ^ 49\<rparr>))
       \<noteq> (9 * 16 + 62 * (16 - 3 / 2 ^ 49)) / (9 + 62)"
proof -
  have f1: "fl (9 * 16) = 144"
    using fl_pos_Ints [of 144] by simp
  have f4: "fl (9 + 62) = 71"
    using fl_pos_Ints [of 71] by simp
  have f6: "fl (62 + 9) = 71"
    using fl_pos_Ints [of 71] by simp
  have u: "mixWater_double 9 16 \<lparr>capacity = 500, waterVol = 62, waterTemp = 16 - 3 / 2 ^ 49\<rparr>
           = (if fl (9 + 62) = 0
              then (Inl ZeroDivisionError,
                    \<lparr>capacity = 500, waterVol = 62, waterTemp = 16 - 3 / 2 ^ 49\<rparr>)
              else (Inr (),
                    \<lparr>capacity = 500, waterVol = fl (62 + 9),
                     waterTemp = fl (fl (fl (9 * 16) + fl ((16 - 3 / 2 ^ 49) * 62)) / fl (9 + 62))\<rparr>))"
    unfolding mixWater_double_def tank.simps by (rule refl)
  have run: "mixWater_double 9 16 \<lparr>capacity = 500, waterVol = 62, waterTemp = 16 - 3 / 2 ^ 49\<rparr>
             = (Inr (), \<lparr>capacity = 500, waterVol = 71, waterTemp = 16 - 4 / 2 ^ 49\<rparr>)"
    unfolding u f1 f4 f6 fl_product_62 fl_sum_144 fl_quotient_71 by simp
  show ?thesis
    unfolding run by simp
qed

subsection \<open>Heating\<close>

lemma collect_temps_map:
  assumes "m \<noteq> 0"
  shows "collect_temps ps E m T acc
         = Inr (acc @ map (\<lambda>p. (E * height p * width p * efficiency p / (m * SpecificHeatCapacity) + T) * m) ps)"
  using assms
  by (induction ps arbitrary: acc)
     (simp_all add: tempResult_def heatEnergy_def SpecificHeatCapacity_def)

lemma collect_temps_zero_mass:
  "collect_temps (p # ps) E 0 T acc = Inl ZeroDivisionError"
  by (simp add: tempResult_def heatEnergy_def)

lemma heatWater_ceiling:
  "MAX_HEAT \<le> T \<Longrightarrow> heatWater volume T cls self = Inr MAX_HEAT"
  by (simp add: heatWater_def)

lemma heatWater_below_ceiling:
  assumes "T < MAX_HEAT" and "0 < volume" and "cls \<noteq> []"
  shows "heatWater volume T cls self
         = Inr (sum_list
                  (map (\<lambda>p. (incidentEnergy self * height p * width p * efficiency p
                                / (volume / real (length cls) * Density * SpecificHeatCapacity) + T)
                             * (volume / real (length cls) * Density)) cls)
                / (volume * Density))"
proof -
  have n: "length cls \<noteq> 0"
    using assms(3) by simp
  have m: "volume / real (length cls) * Density \<noteq> 0"
    using assms(2) n by (simp add: Density_def)
  have tm: "volume * Density \<noteq> 0"
    using assms(2) by (simp add: Density_def)
  have loop: "collect_temps cls (incidentEnergy self) (volume / real (length cls) * Density) T []
              = Inr (map (\<lambda>p. (incidentEnergy self * height p * width p * efficiency p
                                / (volume / real (length cls) * Density * SpecificHeatCapacity) + T)
                             * (volume / real (length cls) * Density)) cls)"
    using collect_temps_map [OF m, of cls "incidentEnergy self" T "[]"] by simp
  have "\<not> MAX_HEAT \<le> T"
    using assms(1) by simp
  then show ?thesis
    unfolding heatWater_def Let_def using n tm loop by simp
qed



text \<open>
  Claim C9, as the code has it. \<open>heatWater\<close> has no test of the volume. With volume 0
  and an inlet temperature below \<open>MAX_HEAT\<close> the division by zero leaves the method as
  ZeroDivisionError (by the number of panels when there is none, inside the first panel's
  \<open>heatEnergy\<close> otherwise); at or above \<open>MAX_HEAT\<close> the method returns \<open>MAX_HEAT\<close>.
\<close>

theorem heatWater_zero_volume:
  "heatWater 0 T cls self = (if MAX_HEAT \<le> T then Inr MAX_HEAT else Inl ZeroDivisionError)"
proof (cases cls)
  case Nil
  then show ?thesis by (simp add: heatWater_def)
next
  case (Cons p ps)
  then show ?thesis
    by (simp add: heatWater_def collect_temps_zero_mass del: collect_temps.simps)
qed

text \<open>
  Claim C9 as stated fails: the default heater (one default panel, incident energy 1224)
  asked to heat the volume 0 from 15 degrees raises ZeroDivisionError, not ValueError.
\<close>

theorem heatWater_zero_volume_counterexample:
  "heatWater 0 15 [Panel_init 1 1 0.18] \<lparr>incidentEnergy = 1224\<rparr> = Inl ZeroDivisionError
   \<and> heatWater 0 15 [Panel_init 1 1 0.18] \<lparr>incidentEnergy = 1224\<rparr> \<noteq> Inl ValueError"
  by (simp add: heatWater_def tempResult_def heatEnergy_def MAX_HEAT_def)

subsection \<open>Tank\<close>

lemma releaseWaterVolume_enough:
  "volume \<le> waterVol self \<Longrightarrow>
   releaseWaterVolume volume self = (Inr (), self\<lparr>waterVol := waterVol self - volume\<rparr>)"
  by (simp add: releaseWaterVolume_def)

lemma releaseWaterVolume_nonneg:
  "0 \<le> waterVol self \<Longrightarrow> 0 \<le> waterVol (snd (releaseWaterVolume volume self))"
  by (simp add: releaseWaterVolume_def)

lemma addWater_nonneg:
  "0 \<le> volume \<Longrightarrow> 0 \<le> waterVol self \<Longrightarrow> 0 \<le> waterVol (snd (addWater volume temprature self))"
  by (simp add: addWater_def mixWater_def)

lemma addWater_within_capacity:
  "0 < volume \<Longrightarrow> 0 \<le> waterVol self \<Longrightarrow> volume \<le> capacity self - waterVol self \<Longrightarrow>
   fst (addWater volume temprature self) = Inr []
   \<and> waterVol (snd (addWater volume temprature self)) \<le> capacity (snd (addWater volume temprature self))"
  by (simp add: addWater_def mixWater_def)

text \<open>
  Claim C1 at a failing input. A tank of capacity 500 holding 60 litres at 15 degrees
  receives 441 litres at 20 degrees: \<open>addWater\<close> prints its capacity message, mixes the
  water in all the same and returns, and the tank then holds 501 litres, more than its
  capacity.
\<close>

theorem addWater_exceeds_capacity:
  "fst (addWater 441 20 (Tank_init 500 60 15))
     = Inr [''Cannot add more water than the overall tank capacity'']
   \<and> waterVol (snd (addWater 441 20 (Tank_init 500 60 15))) = 501
   \<and> capacity (snd (addWater 441 20 (Tank_init 500 60 15))) = 500
   \<and> \<not> waterVol (snd (addWater 441 20 (Tank_init 500 60 15)))
         \<le> capacity (snd (addWater 441 20 (Tank_init 500 60 15)))"
  by (simp add: addWater_def mixWater_def Tank_init_def)

text \<open>
  Claim C8 at a failing input. Releasing 61 litres from a tank holding 60 does not print
  the message and return: AttributeError leaves the method (the message's argument
  \<open>self.waterCap\<close> does not exist). The tank is as it was.
\<close>

theorem releaseWaterVolume_too_much:
  "releaseWaterVolume 61 (Tank_init 500 60 15) = (Inl AttributeError, Tank_init 500 60 15)"
  by (simp add: releaseWaterVolume_def Tank_init_def)

subsection \<open>The panels of the class\<close>

lemma append_panels_replicate:
  "append_panels n p cls = cls @ replicate n p"
  by (induction n arbitrary: cls) simp_all

lemma SolarHeater_init_appends:
  "length customSpec = 0 \<or> length customSpec = 3 \<Longrightarrow>
   \<exists>p. SolarHeater_init n customSpec cls
        = (Inr \<lparr>incidentEnergy = - 1\<rparr>, cls @ replicate (nat n) p)"
  by (auto simp add: SolarHeater_init_def buildSolarPanels_def append_panels_replicate)

text \<open>
  Claim C5 at a failing input. In a fresh interpreter (the list of the class is empty)
  \<open>SolarHeater(1)\<close> is constructed, then \<open>SolarHeater(2)\<close>. After the first
  construction the list read through the first instance has one panel. The second
  construction appends to the same list: the second instance reads three panels, not
  two, and the first instance now reads three panels too.
\<close>

theorem SolarHeater_panels_shared:
  "(case SolarHeater_init 1 [] [] of
      (r1, cls1) \<Rightarrow>
        (case SolarHeater_init 2 [] cls1 of
           (r2, cls2) \<Rightarrow>
             r1 = Inr \<lparr>incidentEnergy = - 1\<rparr> \<and> r2 = Inr \<lparr>incidentEnergy = - 1\<rparr>
             \<and> cls1 = [Panel_init 1 1 0.18]
             \<and> cls2 = [Panel_init 1 1 0.18, Panel_init 1 1 0.18, Panel_init 1 1 0.18]
             \<and> length cls2 = 3 \<and> cls2 \<noteq> cls1))"
  by (simp add: SolarHeater_init_def buildSolarPanels_def append_panels_replicate
      numeral_eq_Suc)

subsection \<open>Incident energy\<close>

text \<open>
  Claim C6 at two failing inputs. Right after construction the stored value is the
  constructor's \<open>-1\<close> and \<open>getIncidentEnergy\<close> returns it; after
  \<open>setIncidentEnergy(0)\<close> the stored value is zero and \<open>getIncidentEnergy\<close> raises
  ValueError.
\<close>

theorem getIncidentEnergy_sentinel_and_zero:
  "(case SolarHeater_init 1 [] [] of
      (Inr h, cls) \<Rightarrow>
        getIncidentEnergy h = Inr (- 1)
        \<and> getIncidentEnergy (setIncidentEnergy 0 h) = Inl ValueError
    | (Inl e, cls) \<Rightarrow> False)"
  by (simp add: SolarHeater_init_def buildSolarPanels_def getIncidentEnergy_def
      setIncidentEnergy_def)

subsection \<open>Changing a panel\<close>

lemma bind_arguments_names:
  assumes "bind_arguments positional keywords = Inr locals"
  shows "set (map fst locals) \<subseteq> set changePanelAt_params"
proof -
  from assms have k: "\<not> list_ex (\<lambda>kv. fst kv \<in> set (take (length positional) changePanelAt_params)
                            \<or> fst kv \<notin> set changePanelAt_params) keywords"
    and l: "locals = zip changePanelAt_params positional @ keywords"
    by (auto simp add: bind_arguments_def split: if_splits)
  from k have "\<forall>kv \<in> set keywords. fst kv \<in> set changePanelAt_params"
    by (auto simp add: list_ex_iff)
  moreover have "\<forall>kv \<in> set (zip changePanelAt_params positional). fst kv \<in> set changePanelAt_params"
    by (auto dest: set_zip_leftD)
  ultimately show ?thesis
    using l by auto
qed

lemma bind_arguments_error:
  "bind_arguments positional keywords = Inl e \<Longrightarrow> e = TypeError"
  by (auto simp add: bind_arguments_def split: if_splits)

lemma changePanelAt_never_updates:
  "snd (changePanelAt args kwargs cls) = cls
   \<and> (fst (changePanelAt args kwargs cls) = Inl TypeError
      \<or> fst (changePanelAt args kwargs cls) = Inl NameError)"
proof (cases "bind_arguments (Receiver # map Arg args) (map (\<lambda>kv. (fst kv, Arg (snd kv))) kwargs)")
  case (Inl e)
  then have "e = TypeError"
    by (rule bind_arguments_error)
  with Inl show ?thesis
    by (simp add: changePanelAt_def)
next
  case (Inr locals)
  then have "set (map fst locals) \<subseteq> set changePanelAt_params"
    by (rule bind_arguments_names)
  then have "''self'' \<notin> set (map fst locals)"
    by (auto simp add: changePanelAt_params_def)
  moreover have "''self'' \<notin> set module_names"
    by (simp add: module_names_def)
  ultimately show ?thesis
    using Inr by (simp add: changePanelAt_def)
qed

text \<open>
  Claim C7 at three failing inputs, on a heater whose list holds one default panel.
  \<^item> \<open>heater.changePanelAt(0, efficiency=0.5)\<close>, an index in range: NameError, and the
    panel keeps its efficiency 0.18.
  \<^item> \<open>heater.changePanelAt(0, None, None, 0.5)\<close>, the index and the three fields:
    TypeError, the panel is as it was.
  \<^item> \<open>heater.changePanelAt(1, efficiency=0.5)\<close>, an index out of range: NameError, not
    IndexError.
\<close>

theorem changePanelAt_fails:
  "changePanelAt [ArgInt 0] [(''efficiency'', ArgFloat 0.5)] [Panel_init 1 1 0.18]
     = (Inl NameError, [Panel_init 1 1 0.18])
   \<and> changePanelAt [ArgInt 0, ArgNone, ArgNone, ArgFloat 0.5] [] [Panel_init 1 1 0.18]
     = (Inl TypeError, [Panel_init 1 1 0.18])
   \<and> changePanelAt [ArgInt 1] [(''efficiency'', ArgFloat 0.5)] [Panel_init 1 1 0.18]
     = (Inl NameError, [Panel_init 1 1 0.18])"
  by (simp add: changePanelAt_def bind_arguments_def changePanelAt_params_def
      module_names_def)

subsection \<open>One pump cycle\<close>

lemma drawWaterFromTank_enough:
  "pumpingRate (pump c) \<le> waterVol (tank c) \<Longrightarrow>
   drawWaterFromTank c
   = (Inr (), c\<lparr>tank := (tank c)\<lparr>waterVol := waterVol (tank c) - pumpingRate (pump c)\<rparr>\<rparr>)"
  by (simp add: drawWaterFromTank_def releaseWaterVolume_def)

lemma feedWaterToTank_returns:
  assumes "feedWaterToTank T c1 = (Inr (), c')"
  shows "waterVol (tank c') = waterVol (tank c1) + pumpingRate (pump c1)"
  using assms
  by (auto simp add: feedWaterToTank_def addWater_def mixWater_def Let_def
      split: if_splits)

lemma feedWaterToTank_total:
  assumes "pumpingRate (pump c1) + waterVol (tank c1) \<noteq> 0"
  shows "fst (feedWaterToTank T c1) = Inr ()"
  using assms
  by (simp add: feedWaterToTank_def addWater_def mixWater_def Let_def)

lemma heatWater_total:
  assumes "0 < volume" and "cls \<noteq> []"
  shows "\<exists>T'. heatWater volume T cls self = Inr T'"
proof (cases "MAX_HEAT \<le> T")
  case True
  then show ?thesis by (simp add: heatWater_ceiling)
next
  case False
  then have "T < MAX_HEAT" by simp
  then show ?thesis
    using assms by (simp add: heatWater_below_ceiling)
qed

lemma performOneCycle_returns:
  assumes "pumpingRate (pump c) \<le> waterVol (tank c)"
    and "performOneCycle cls c = (Inr (), c')"
  shows "\<exists>c1 T. drawWaterFromTank c = (Inr (), c1)
           \<and> waterVol (tank c1) = waterVol (tank c) - pumpingRate (pump c)
           \<and> feedWaterToSolarHeater cls c1 = Inr T
           \<and> feedWaterToTank T c1 = (Inr (), c')
           \<and> waterVol (tank c') = waterVol (tank c1) + pumpingRate (pump c)"
proof -
  let ?c1 = "c\<lparr>tank := (tank c)\<lparr>waterVol := waterVol (tank c) - pumpingRate (pump c)\<rparr>\<rparr>"
  have d: "drawWaterFromTank c = (Inr (), ?c1)"
    using assms(1) by (rule drawWaterFromTank_enough)
  from assms(2) d obtain T where
    h: "feedWaterToSolarHeater cls ?c1 = Inr T" and f: "feedWaterToTank T ?c1 = (Inr (), c')"
    by (auto simp add: performOneCycle_def split: sum.splits)
  have "waterVol (tank c') = waterVol (tank ?c1) + pumpingRate (pump ?c1)"
    using f by (rule feedWaterToTank_returns)
  then have v: "waterVol (tank c') = waterVol (tank ?c1) + pumpingRate (pump c)"
    by simp
  show ?thesis
    using d h f v by (intro exI [of _ ?c1] exI [of _ T]) simp
qed

lemma performOneCycle_total:
  assumes "0 < pumpingRate (pump c)" and "pumpingRate (pump c) \<le> waterVol (tank c)"
    and "cls \<noteq> []"
  shows "fst (performOneCycle cls c) = Inr ()"
proof -
  let ?c1 = "c\<lparr>tank := (tank c)\<lparr>waterVol := waterVol (tank c) - pumpingRate (pump c)\<rparr>\<rparr>"
  have d: "drawWaterFromTank c = (Inr (), ?c1)"
    using assms(2) by (rule drawWaterFromTank_enough)
  obtain T where h: "feedWaterToSolarHeater cls ?c1 = Inr T"
    using heatWater_total [OF assms(1) assms(3)]
    unfolding feedWaterToSolarHeater_def by auto
  have "pumpingRate (pump ?c1) + waterVol (tank ?c1) \<noteq> 0"
    using assms(1,2) by simp
  then have "fst (feedWaterToTank T ?c1) = Inr ()"
    by (rule feedWaterToTank_total)
  then show ?thesis
    using d h by (simp add: performOneCycle_def)
qed

text \<open>
  Claim C10. When the tank holds at least the pumping rate and a cycle runs to its end
  (no exception leaves it), the draw removed exactly the rate from the stored volume,
  the heater was asked for the outlet temperature on the tank so reduced, the return
  added exactly the rate, and the stored volume after the cycle is the one before it.
  Such cycles exist: with a positive rate not above the stored volume and at least one
  panel, the cycle runs to its end.
\<close>

theorem performOneCycle_volume:
  "(pumpingRate (pump c) \<le> waterVol (tank c) \<and> performOneCycle cls c = (Inr (), c') \<longrightarrow>
      (\<exists>c1 T. drawWaterFromTank c = (Inr (), c1)
          \<and> waterVol (tank c1) = waterVol (tank c) - pumpingRate (pump c)
          \<and> feedWaterToSolarHeater cls c1 = Inr T
          \<and> feedWaterToTank T c1 = (Inr (), c')
          \<and> waterVol (tank c') = waterVol (tank c1) + pumpingRate (pump c))
      \<and> waterVol (tank c') = waterVol (tank c))
   \<and> (0 < pumpingRate (pump c) \<and> pumpingRate (pump c) \<le> waterVol (tank c) \<and> cls \<noteq> [] \<longrightarrow>
        fst (performOneCycle cls c) = Inr ())"
proof (intro conjI impI)
  assume a: "pumpingRate (pump c) \<le> waterVol (tank c) \<and> performOneCycle cls c = (Inr (), c')"
  then have p1: "pumpingRate (pump c) \<le> waterVol (tank c)"
    and p2: "performOneCycle cls c = (Inr (), c')"
    by simp_all
  from p1 p2 have e: "\<exists>c1 T. drawWaterFromTank c = (Inr (), c1)
           \<and> waterVol (tank c1) = waterVol (tank c) - pumpingRate (pump c)
           \<and> feedWaterToSolarHeater cls c1 = Inr T
           \<and> feedWaterToTank T c1 = (Inr (), c')
           \<and> waterVol (tank c') = waterVol (tank c1) + pumpingRate (pump c)"
    by (rule performOneCycle_returns)
  show "\<exists>c1 T. drawWaterFromTank c = (Inr (), c1)
           \<and> waterVol (tank c1) = waterVol (tank c) - pumpingRate (pump c)
           \<and> feedWaterToSolarHeater cls c1 = Inr T
           \<and> feedWaterToTank T c1 = (Inr (), c')
           \<and> waterVol (tank c') = waterVol (tank c1) + pumpingRate (pump c)"
    by (rule e)
  from e show "waterVol (tank c') = waterVol (tank c)"
    by auto
next
  assume "0 < pumpingRate (pump c) \<and> pumpingRate (pump c) \<le> waterVol (tank c) \<and> cls \<noteq> []"
  then show "fst (performOneCycle cls c) = Inr ()"
    by (simp add: performOneCycle_total)
qed

theorem performOneCycle_volume_witness:
  "pumpingRate (pump \<lparr>heater = \<lparr>incidentEnergy = 1224\<rparr>, tank = Tank_init 500 60 15,
                         pump = \<lparr>pumpingRate = 1\<rparr>, targetTemp = 95\<rparr>)
     \<le> waterVol (tank \<lparr>heater = \<lparr>incidentEnergy = 1224\<rparr>, tank = Tank_init 500 60 15,
                         pump = \<lparr>pumpingRate = 1\<rparr>, targetTemp = 95\<rparr>)
   \<and> performOneCycle [Panel_init 1 1 0.18]
        \<lparr>heater = \<lparr>incidentEnergy = 1224\<rparr>, tank = Tank_init 500 60 15,
         pump = \<lparr>pumpingRate = 1\<rparr>, targetTemp = 95\<rparr>
      = (Inr (), \<lparr>heater = \<lparr>incidentEnergy = 1224\<rparr>,
                  tank = \<lparr>capacity = 500, waterVol = 60, waterTemp = 2572653 / 171500\<rparr>,
                  pump = \<lparr>pumpingRate = 1\<rparr>, targetTemp = 95\<rparr>)
   \<and> waterVol (tank \<lparr>heater = \<lparr>incidentEnergy = 1224\<rparr>,
                  tank = \<lparr>capacity = 500, waterVol = 60, waterTemp = 2572653 / 171500\<rparr>,
                  pump = \<lparr>pumpingRate = 1\<rparr>, targetTemp = 95\<rparr>) = 60"
proof -
  let ?c = "\<lparr>heater = \<lparr>incidentEnergy = 1224\<rparr>, tank = Tank_init 500 60 15,
             pump = \<lparr>pumpingRate = 1\<rparr>, targetTemp = 95\<rparr>"
  let ?c' = "\<lparr>heater = \<lparr>incidentEnergy = 1224\<rparr>,
              tank = \<lparr>capacity = 500, waterVol = 60, waterTemp = 2572653 / 171500\<rparr>,
              pump = \<lparr>pumpingRate = 1\<rparr>, targetTemp = 95\<rparr>"
  have run: "performOneCycle [Panel_init 1 1 0.18] ?c = (Inr (), ?c')"
    by (simp add: performOneCycle_def drawWaterFromTank_def releaseWaterVolume_def
        feedWaterToSolarHeater_def heatWater_def tempResult_def heatEnergy_def
        feedWaterToTank_def addWater_def mixWater_def Tank_init_def Panel_init_def
        MAX_HEAT_def Density_def SpecificHeatCapacity_def)
  have enough: "pumpingRate (pump ?c) \<le> waterVol (tank ?c)"
    by (simp add: Tank_init_def)
  show ?thesis
    using performOneCycle_volume [of ?c "[Panel_init 1 1 0.18]" ?c'] run enough
    by simp
qed

subsection \<open>The simulation loop\<close>

lemma simulate_private_no_iteration:
  "time \<le> 0 \<Longrightarrow> simulateSystemForSeconds_private time cls c = (Inr 0, c)"
  by (simp add: simulateSystemForSeconds_private_def)

lemma cycles_range:
  "cycles (Suc k) i timeTaken cls c = (Inr r, c') \<Longrightarrow> i \<le> r \<and> r \<le> i + int k"
proof (induction k arbitrary: i timeTaken c)
  case 0
  then show ?case
    by (auto split: prod.splits sum.splits if_splits)
next
  case (Suc k)
  obtain o1 c1 where p: "performOneCycle cls c = (o1, c1)"
    by (cases "performOneCycle cls c")
  show ?case
  proof (cases o1)
    case (Inl e)
    with p Suc.prems show ?thesis by simp
  next
    case (Inr u)
    show ?thesis
    proof (cases "waterTemp (tank c1) \<ge> targetTemp c1")
      case True
      with p Inr Suc.prems show ?thesis by simp
    next
      case False
      with p Inr Suc.prems have "cycles (Suc k) (i + 1) i cls c1 = (Inr r, c')"
        by simp
      then have "i + 1 \<le> r \<and> r \<le> i + 1 + int k"
        by (rule Suc.IH)
      then show ?thesis by simp
    qed
  qed
qed

lemma simulateSystemForSeconds_no_iteration:
  "second \<le> 0 \<Longrightarrow>
   simulateSystemForSeconds second cls c = (Inr (1, waterTemp (tank c)), c)"
  by (simp add: simulateSystemForSeconds_def simulate_private_no_iteration)

lemma simulateSystemForHours_same_loop:
  "snd (simulateSystemForHours hours cls c)
   = snd (simulateSystemForSeconds_private (hours * 3600) cls c)"
  by (simp add: simulateSystemForHours_def split: prod.splits sum.splits)

lemma simulateSystemForHours_reports_request:
  "fst (simulateSystemForHours hours cls c) = Inr (t, T) \<Longrightarrow> t = hours"
  by (auto simp add: simulateSystemForHours_def split: prod.splits sum.splits)

text \<open>
  Claim C4 at two failing inputs, on the controller that \<open>Controller()\<close> builds in a
  fresh interpreter.
  \<^item> \<open>simulateSystemForSeconds(0)\<close> runs no cycle (the controller is as it was, the tank
    at 15 degrees) and reports the time 1.
  \<^item> With the target temperature set to 15, \<open>simulateSystemForHours(1)\<close> leaves the loop
    after its first cycle (the loop variable is 0, one second has elapsed) and reports
    the time 1, in hours: the requested duration.
\<close>

theorem simulate_reported_time:
  "(case Controller_init [] of
      (Inr c, cls) \<Rightarrow>
        simulateSystemForSeconds 0 cls c = (Inr (1, 15), c)
        \<and> fst (simulateSystemForSeconds_private (1 * 3600) cls (c\<lparr>targetTemp := 15\<rparr>)) = Inr 0
        \<and> fst (simulateSystemForHours 1 cls (c\<lparr>targetTemp := 15\<rparr>))
            = Inr (1, 2572653 / 171500)
    | (Inl e, cls) \<Rightarrow> False)"
  by (simp add: Controller_init_def SolarHeater_init_def buildSolarPanels_def
      setIncidentEnergy_def setPumpingRateLitersPerSec_def Pumping_init_def
      simulateSystemForSeconds_def simulateSystemForHours_def
      simulateSystemForSeconds_private_def numeral_eq_Suc
      performOneCycle_def drawWaterFromTank_def releaseWaterVolume_def
      feedWaterToSolarHeater_def heatWater_def tempResult_def heatEnergy_def
      feedWaterToTank_def addWater_def mixWater_def Tank_init_def Panel_init_def
      MAX_HEAT_def Density_def SpecificHeatCapacity_def)

end
